theory Spec2Isabelle
  imports Complex_Main
begin

section \<open>ID3 split criterion: entropy and average information entropy\<close>

text \<open>
  The development embeds the two numeric routines of \<^verbatim>\<open>utils.h\<close>
  (\<^verbatim>\<open>calculateEntropy\<close> and \<^verbatim>\<open>calculateAverageInformationEntropy\<close>) and the
  dataset queries declared in \<^verbatim>\<open>entries.h\<close>.
\<close>

subsection \<open>The C++ type \<^verbatim>\<open>double\<close>\<close>

text \<open>
  A \<^verbatim>\<open>double\<close> is an IEEE 754 binary64 number: a finite number, one of the two
  infinities, or a NaN. A finite double is carried by its real value; the operations
  round their exact real result to the nearest binary64 number, ties to the even
  significand, as \<^verbatim>\<open>+\<close>, \<^verbatim>\<open>-\<close>, \<^verbatim>\<open>*\<close> and \<^verbatim>\<open>/\<close> do in the default rounding mode.
  Each operation rounds once: no fused multiply-add and no wider intermediate format.
  The sign of a zero is not modelled. The library function \<^verbatim>\<open>log2\<close> is taken to return
  the correctly rounded logarithm; the results below depend on its value only at 0 and
  at powers of two, where it is exact.
\<close>

datatype double = Finite real | PInf | NInf | NaN

text \<open>Rounding of a real to an integer, a tie to the even neighbour.\<close>

definition roundTiesToEven :: "real \<Rightarrow> int" where
  "roundTiesToEven x =
     (let f = \<lfloor>x\<rfloor> in
      if x - of_int f < 1 / 2 then f
      else if 1 / 2 < x - of_int f then f + 1
      else if even f then f else f + 1)"

text \<open>
  Rounding of a real to binary64. A number \<open>x\<close> of the binade \<^verbatim>\<open>2^e <= |x| < 2^(e+1)\<close> is
  rounded to a multiple of \<^verbatim>\<open>2^(e-52)\<close> (53 significant bits); below \<^verbatim>\<open>2^-1022\<close> the
  spacing is that of the subnormal numbers, \<^verbatim>\<open>2^-1074\<close>; a rounded magnitude of
  \<^verbatim>\<open>2^1024\<close> or more overflows to an infinity.
\<close>

definition rnd :: "real \<Rightarrow> double" where
  "rnd x =
     (if x = 0 then Finite 0
      else let u = 2 powi (max \<lfloor>log 2 \<bar>x\<bar>\<rfloor> (- 1022) - 52);
               y = real_of_int (roundTiesToEven (x / u)) * u
           in if 2 ^ 1024 \<le> \<bar>y\<bar> then (if 0 < x then PInf else NInf) else Finite y)"

fun dadd :: "double \<Rightarrow> double \<Rightarrow> double" where
  "dadd NaN y = NaN"
| "dadd x NaN = NaN"
| "dadd PInf NInf = NaN"
| "dadd NInf PInf = NaN"
| "dadd PInf y = PInf"
| "dadd x PInf = PInf"
| "dadd NInf y = NInf"
| "dadd x NInf = NInf"
| "dadd (Finite a) (Finite b) = rnd (a + b)"

fun dneg :: "double \<Rightarrow> double" where
  "dneg (Finite a) = Finite (- a)"
| "dneg PInf = NInf"
| "dneg NInf = PInf"
| "dneg NaN = NaN"

definition dsub :: "double \<Rightarrow> double \<Rightarrow> double" where
  "dsub x y = dadd x (dneg y)"

text \<open>The product of an infinity and a finite factor: NaN for the factor 0.\<close>

definition inf_times :: "bool \<Rightarrow> real \<Rightarrow> double" where
  "inf_times positive b =
     (if b = 0 then NaN else if (0 < b) = positive then PInf else NInf)"

fun dmul :: "double \<Rightarrow> double \<Rightarrow> double" where
  "dmul NaN y = NaN"
| "dmul x NaN = NaN"
| "dmul PInf PInf = PInf"
| "dmul PInf NInf = NInf"
| "dmul NInf PInf = NInf"
| "dmul NInf NInf = PInf"
| "dmul PInf (Finite b) = inf_times True b"
| "dmul NInf (Finite b) = inf_times False b"
| "dmul (Finite a) PInf = inf_times True a"
| "dmul (Finite a) NInf = inf_times False a"
| "dmul (Finite a) (Finite b) = rnd (a * b)"

text \<open>
  Division. A zero divisor is the positive zero: the only division of the program has
  a divisor converted from an \<^verbatim>\<open>int\<close>.
\<close>

fun ddiv :: "double \<Rightarrow> double \<Rightarrow> double" where
  "ddiv NaN y = NaN"
| "ddiv x NaN = NaN"
| "ddiv (Finite a) (Finite b) =
     (if b = 0 then (if a = 0 then NaN else if 0 < a then PInf else NInf)
      else rnd (a / b))"
| "ddiv (Finite a) y = Finite 0"
| "ddiv PInf (Finite b) = (if b < 0 then NInf else PInf)"
| "ddiv NInf (Finite b) = (if b < 0 then PInf else NInf)"
| "ddiv x y = NaN"

text \<open>\<^verbatim>\<open>log2\<close>: a pole at 0, NaN on negative arguments.\<close>

fun dlog2 :: "double \<Rightarrow> double" where
  "dlog2 (Finite a) =
     (if a = 0 then NInf else if a < 0 then NaN else rnd (log 2 a))"
| "dlog2 PInf = PInf"
| "dlog2 NInf = NaN"
| "dlog2 NaN = NaN"

text \<open>The comparisons \<^verbatim>\<open>!=\<close> and \<^verbatim>\<open>>\<close>: a NaN is unequal to everything and unordered.\<close>

definition dne :: "double \<Rightarrow> double \<Rightarrow> bool" where
  "dne x y = (x = NaN \<or> y = NaN \<or> x \<noteq> y)"

fun dgt :: "double \<Rightarrow> double \<Rightarrow> bool" where
  "dgt NaN y = False"
| "dgt x NaN = False"
| "dgt (Finite a) (Finite b) = (b < a)"
| "dgt PInf PInf = False"
| "dgt PInf y = True"
| "dgt x PInf = False"
| "dgt NInf y = False"
| "dgt x NInf = True"

text \<open>Conversion of an \<^verbatim>\<open>int\<close>; exact for every 32-bit value.\<close>

definition double_of_int :: "int \<Rightarrow> double" where
  "double_of_int n = rnd (real_of_int n)"

subsection \<open>\<^verbatim>\<open>utils.h\<close>\<close>

text \<open>
  The two exception classes. Their message strings are not modelled.
\<close>

datatype error = InvalidSumOfProbabilitiesException | InvalidNumberOfEntriesException

text \<open>
  \<^verbatim>\<open>using Count = int; using Entropy = double;\<close> The counts are only compared and
  converted, never added or multiplied, so no wrap-around can occur and they are
  carried as integers.
\<close>

type_synonym Count = int
type_synonym Entropy = double

text \<open>The first loop of \<^verbatim>\<open>calculateEntropy\<close>: \<^verbatim>\<open>sumOfProbabilites += probability\<close>.\<close>

fun sumOfProbabilites :: "double \<Rightarrow> double list \<Rightarrow> double" where
  "sumOfProbabilites s [] = s"
| "sumOfProbabilites s (probability # rest) = sumOfProbabilites (dadd s probability) rest"

text \<open>The second loop: \<^verbatim>\<open>entropy -= probability * log2(probability)\<close>.\<close>

fun entropyLoop :: "Entropy \<Rightarrow> double list \<Rightarrow> Entropy" where
  "entropyLoop entropy [] = entropy"
| "entropyLoop entropy (probability # rest) =
     entropyLoop (dsub entropy (dmul probability (dlog2 probability))) rest"

definition calculateEntropy :: "double list \<Rightarrow> error + Entropy" where
  "calculateEntropy probabilities =
     (if dne (sumOfProbabilites (Finite 0) probabilities) (Finite 1)
      then Inl InvalidSumOfProbabilitiesException
      else Inr (entropyLoop (Finite 0) probabilities))"

text \<open>
  The loop of \<^verbatim>\<open>calculateAverageInformationEntropy\<close>, with the accumulator
  \<^verbatim>\<open>averageInformationEntropy\<close> as an argument. The \<^verbatim>\<open>throw\<close> leaves the loop at the
  first pair whose count is higher than the total.
\<close>

fun averageLoop :: "int \<Rightarrow> Entropy \<Rightarrow> (Count \<times> Entropy) list \<Rightarrow> error + Entropy" where
  "averageLoop totalNumberOfEntries averageInformationEntropy [] =
     Inr averageInformationEntropy"
| "averageLoop totalNumberOfEntries averageInformationEntropy ((count, entropy) # rest) =
     (if count > totalNumberOfEntries then Inl InvalidNumberOfEntriesException
      else averageLoop totalNumberOfEntries
             (dadd averageInformationEntropy
                (dmul (ddiv (double_of_int count) (double_of_int totalNumberOfEntries)) entropy))
             rest)"

definition calculateAverageInformationEntropy ::
    "int \<Rightarrow> (Count \<times> Entropy) list \<Rightarrow> error + Entropy" where
  "calculateAverageInformationEntropy totalNumberOfEntries attributeAndItsEntropyPair =
     averageLoop totalNumberOfEntries (Finite 0) attributeAndItsEntropyPair"

subsection \<open>\<^verbatim>\<open>entries.h\<close>\<close>

text \<open>
  The class \<^verbatim>\<open>Entries\<close> has one member, \<^verbatim>\<open>vector<vector<string>> data\<close>: the rows of
  the dataset. Field 0 of a row is its class label, field \<open>a + 1\<close> the value of the
  attribute with id \<open>a\<close>. The header declares the methods; their bodies are not among
  the sources, so each one is modelled from its description in the specification.
  An \<^verbatim>\<open>unordered_set<string>\<close> is a list without duplicates: the callers iterate over
  it, and its order of iteration is not fixed by C++. Attribute ids are natural numbers:
  the specification has them zero-based, and the type \<^verbatim>\<open>AttributeId\<close> is declared
  nowhere in the sources.
\<close>

record Entries =
  data :: "string list list"

text \<open>
  Modelled from the spec: the body of \<^verbatim>\<open>Entries::isEmpty\<close>, "true iff the row count is
  zero".
\<close>

definition isEmpty :: "Entries \<Rightarrow> bool" where
  "isEmpty E = (data E = [])"

text \<open>
  Modelled from the spec: the body of \<^verbatim>\<open>Entries::getClasses\<close>, the "set of distinct class
  labels (field 0) across all rows".
\<close>

definition getClasses :: "Entries \<Rightarrow> string list" where
  "getClasses E = remdups (map (\<lambda>row. row ! 0) (data E))"

text \<open>
  Modelled from the spec: the body of \<^verbatim>\<open>Entries::countEntriesByAttribute\<close>, the "count of
  rows whose value at attributeId equals value". The method returns an \<^verbatim>\<open>int\<close>.
\<close>

definition countEntriesByAttribute :: "Entries \<Rightarrow> nat \<Rightarrow> string \<Rightarrow> int" where
  "countEntriesByAttribute E attributeId attributeValue =
     int (length (filter (\<lambda>row. row ! Suc attributeId = attributeValue) (data E)))"

text \<open>
  Modelled from the spec: the body of \<^verbatim>\<open>Entries::getAllPossibleAttributeValues\<close>, the "set
  of distinct values observed in that column across all rows".
\<close>

definition getAllPossibleAttributeValues :: "Entries \<Rightarrow> nat \<Rightarrow> string list" where
  "getAllPossibleAttributeValues E attributeId =
     remdups (map (\<lambda>row. row ! Suc attributeId) (data E))"

text \<open>
  Modelled from the spec: the class distribution of a dataset, which no method of the
  header returns: for each of its classes the "count of class c in subset / subset
  size", both converted to \<^verbatim>\<open>double\<close>.
\<close>

definition countEntriesByClass :: "Entries \<Rightarrow> string \<Rightarrow> int" where
  "countEntriesByClass E c = int (length (filter (\<lambda>row. row ! 0 = c) (data E)))"

definition classDistribution :: "Entries \<Rightarrow> double list" where
  "classDistribution E =
     map (\<lambda>c. ddiv (double_of_int (countEntriesByClass E c))
                    (double_of_int (int (length (data E)))))
         (getClasses E)"

text \<open>
  Modelled from the spec: the body of \<^verbatim>\<open>Entries::calculateAttributeEntropy\<close>, which
  "builds the class-label distribution restricted to the subset of rows where attributeId
  == value" and "returns calculateEntropy of that distribution". The distribution ranges
  over the classes that occur in the subset.
\<close>

definition entriesWithAttributeValue :: "Entries \<Rightarrow> nat \<Rightarrow> string \<Rightarrow> Entries" where
  "entriesWithAttributeValue E attributeId attributeValue =
     \<lparr>data = filter (\<lambda>row. row ! Suc attributeId = attributeValue) (data E)\<rparr>"

definition calculateAttributeEntropy :: "Entries \<Rightarrow> nat \<Rightarrow> string \<Rightarrow> error + Entropy" where
  "calculateAttributeEntropy E attributeId attributeValue =
     calculateEntropy (classDistribution (entriesWithAttributeValue E attributeId attributeValue))"

text \<open>
  Modelled from the spec: the body of
  \<^verbatim>\<open>Entries::calculateAttributeAverageInformationEntropy\<close>: "for every value in
  getAllPossibleAttributeValues(attributeId), compute (count via countEntriesByAttribute,
  entropy via calculateAttributeEntropy); pass the resulting pairs and the dataset's total
  row count to calculateAverageInformationEntropy". An exception of
  \<^verbatim>\<open>calculateAttributeEntropy\<close> ends the computation.
\<close>

fun attributePairs :: "Entries \<Rightarrow> nat \<Rightarrow> string list \<Rightarrow> error + (Count \<times> Entropy) list" where
  "attributePairs E attributeId [] = Inr []"
| "attributePairs E attributeId (v # vs) =
     (case calculateAttributeEntropy E attributeId v of
        Inl err \<Rightarrow> Inl err
      | Inr entropy \<Rightarrow>
          (case attributePairs E attributeId vs of
             Inl err \<Rightarrow> Inl err
           | Inr pairs \<Rightarrow> Inr ((countEntriesByAttribute E attributeId v, entropy) # pairs)))"

definition calculateAttributeAverageInformationEntropy :: "Entries \<Rightarrow> nat \<Rightarrow> error + Entropy" where
  "calculateAttributeAverageInformationEntropy E attributeId =
     (case attributePairs E attributeId (getAllPossibleAttributeValues E attributeId) of
        Inl err \<Rightarrow> Inl err
      | Inr pairs \<Rightarrow> calculateAverageInformationEntropy (int (length (data E))) pairs)"

text \<open>
  Modelled from the spec: steps 1 and 2 of
  \<^verbatim>\<open>Entries::getAttributeWithHighestInformationGain\<close>: the entropy \<open>E(S)\<close> of "the overall
  class distribution of the full dataset", and
  \<open>InformationGain(A) = E(S) - calculateAttributeAverageInformationEntropy(A)\<close> for the
  candidate ids in increasing order.
\<close>

definition informationGain :: "Entries \<Rightarrow> nat \<Rightarrow> error + double" where
  "informationGain E attributeId =
     (case calculateEntropy (classDistribution E) of
        Inl err \<Rightarrow> Inl err
      | Inr entropyOfS \<Rightarrow>
          (case calculateAttributeAverageInformationEntropy E attributeId of
             Inl err \<Rightarrow> Inl err
           | Inr average \<Rightarrow> Inr (dsub entropyOfS average)))"

fun informationGains :: "Entries \<Rightarrow> nat list \<Rightarrow> error + (nat \<times> double) list" where
  "informationGains E [] = Inr []"
| "informationGains E (a # as) =
     (case informationGain E a of
        Inl err \<Rightarrow> Inl err
      | Inr gain \<Rightarrow>
          (case informationGains E as of
             Inl err \<Rightarrow> Inl err
           | Inr gains \<Rightarrow> Inr ((a, gain) # gains)))"

text \<open>
  Modelled from the spec: step 3 of \<^verbatim>\<open>Entries::getAttributeWithHighestInformationGain\<close>,
  "return the AttributeId maximizing InformationGain; tie-break policy: the lowest
  AttributeId among maximal-gain candidates". The scan keeps the earlier candidate unless
  a later gain is greater by \<^verbatim>\<open>>\<close>.
\<close>

fun highestFrom :: "nat \<times> double \<Rightarrow> (nat \<times> double) list \<Rightarrow> nat" where
  "highestFrom best [] = fst best"
| "highestFrom best ((a, gain) # rest) =
     (if dgt gain (snd best) then highestFrom (a, gain) rest else highestFrom best rest)"

text \<open>
  Modelled from the spec: the body of \<^verbatim>\<open>Entries::getAttributeWithHighestInformationGain\<close>.
  The candidates are the ids \<open>0, \<dots>, N - 2\<close> for rows of \<open>N\<close> fields. By step 4 of the
  description a dataset that is empty or has no attribute column gives an error, which
  the specification does not name; an exception of the entropy routines is passed on.
\<close>

datatype query_error = PreconditionViolated | Raised error

definition numberOfColumns :: "Entries \<Rightarrow> nat" where
  "numberOfColumns E = (case data E of [] \<Rightarrow> 0 | row # _ \<Rightarrow> length row)"

definition getAttributeWithHighestInformationGain :: "Entries \<Rightarrow> query_error + nat" where
  "getAttributeWithHighestInformationGain E =
     (if isEmpty E \<or> numberOfColumns E < 2 then Inl PreconditionViolated
      else (case informationGains E [0 ..< numberOfColumns E - 1] of
              Inl err \<Rightarrow> Inl (Raised err)
            | Inr [] \<Rightarrow> Inl PreconditionViolated
            | Inr (first # rest) \<Rightarrow> Inr (highestFrom first rest)))"

subsection \<open>Notions of the specification\<close>

text \<open>
  The sum of a sequence of doubles, accumulated from 0 in the order of the sequence,
  as the loops of the program accumulate.
\<close>

definition dsum :: "double list \<Rightarrow> double" where
  "dsum xs = foldl dadd (Finite 0) xs"

text \<open>
  The weighted sum \<open>\<Sigma> (count\<^sub>i / totalCount) \<cdot> entropy\<^sub>i\<close> of the specification, once
  with the operations of \<^verbatim>\<open>double\<close> and once over the reals for finite entropies.
\<close>

definition weightedTerm :: "int \<Rightarrow> Count \<times> Entropy \<Rightarrow> double" where
  "weightedTerm totalCount p =
     dmul (ddiv (double_of_int (fst p)) (double_of_int totalCount)) (snd p)"

definition weightedSum :: "int \<Rightarrow> (Count \<times> Entropy) list \<Rightarrow> double" where
  "weightedSum totalCount pairs = dsum (map (weightedTerm totalCount) pairs)"

definition weightedSumReal :: "int \<Rightarrow> (int \<times> real) list \<Rightarrow> real" where
  "weightedSumReal totalCount pairs =
     (\<Sum>(c, e) \<leftarrow> pairs. (real_of_int c / real_of_int totalCount) * e)"

text \<open>
  Shannon entropy in bits of a sequence of real probabilities, and the same formula
  \<open>- \<Sigma> p\<^sub>i \<cdot> log2 p\<^sub>i\<close> evaluated with the operations of \<^verbatim>\<open>double\<close>.
\<close>

definition shannonEntropy :: "real list \<Rightarrow> real" where
  "shannonEntropy ps = - (\<Sum>p \<leftarrow> ps. p * log 2 p)"

definition entropyFormula :: "double list \<Rightarrow> double" where
  "entropyFormula ps = dneg (dsum (map (\<lambda>p. dmul p (dlog2 p)) ps))"

text \<open>
  A sum lies within the tolerance \<open>eps\<close> of 1. An infinite sum or a NaN does not.
\<close>

definition withinTolerance :: "real \<Rightarrow> double \<Rightarrow> bool" where
  "withinTolerance eps s = (case s of Finite x \<Rightarrow> \<bar>x - 1\<bar> \<le> eps | _ \<Rightarrow> False)"

text \<open>
  A real is representable when rounding leaves it unchanged. A run of a loop is without
  rounding when every value it computes is representable: for the sum of the
  probabilities the partial sums; for the entropy the logarithm, the product and the
  partial difference of every step; for the average the two converted integers, the
  quotient, the product and the partial sum of every step.
\<close>

definition representable :: "real \<Rightarrow> bool" where
  "representable x = (rnd x = Finite x)"

fun sumWithoutRounding :: "real \<Rightarrow> real list \<Rightarrow> bool" where
  "sumWithoutRounding s [] = True"
| "sumWithoutRounding s (p # ps) = (representable (s + p) \<and> sumWithoutRounding (s + p) ps)"

fun entropyWithoutRounding :: "real \<Rightarrow> real list \<Rightarrow> bool" where
  "entropyWithoutRounding e [] = True"
| "entropyWithoutRounding e (p # ps) =
     (0 < p \<and> representable (log 2 p) \<and> representable (p * log 2 p)
      \<and> representable (e - p * log 2 p) \<and> entropyWithoutRounding (e - p * log 2 p) ps)"

fun averageWithoutRounding :: "int \<Rightarrow> real \<Rightarrow> (int \<times> real) list \<Rightarrow> bool" where
  "averageWithoutRounding t acc [] = True"
| "averageWithoutRounding t acc ((c, e) # qs) =
     (representable (real_of_int c) \<and> representable (real_of_int t)
      \<and> representable (real_of_int c / real_of_int t)
      \<and> representable (real_of_int c / real_of_int t * e)
      \<and> representable (acc + real_of_int c / real_of_int t * e)
      \<and> averageWithoutRounding t (acc + real_of_int c / real_of_int t * e) qs)"

section \<open>Properties\<close>

subsection \<open>Rounding\<close>

lemma roundTiesToEven_eqI:
  assumes "of_int m - 1 / 2 < x" and "x < of_int m + 1 / 2"
  shows "roundTiesToEven x = m"
proof (cases "of_int m \<le> x")
  case True
  with assms have "\<lfloor>x\<rfloor> = m" by (intro floor_unique) auto
  with assms show ?thesis by (simp add: roundTiesToEven_def)
next
  case False
  with assms have "\<lfloor>x\<rfloor> = m - 1" by (intro floor_unique) auto
  with assms False show ?thesis by (simp add: roundTiesToEven_def)
qed

lemma roundTiesToEven_of_int: "roundTiesToEven (of_int m) = m"
  by (rule roundTiesToEven_eqI) simp_all

lemma roundTiesToEven_half:
  "roundTiesToEven (of_int m + 1 / 2) = (if even m then m else m + 1)"
proof -
  have "\<lfloor>of_int m + 1 / 2 :: real\<rfloor> = m" by (intro floor_unique) auto
  then show ?thesis by (simp add: roundTiesToEven_def)
qed

lemma roundTiesToEven_minus: "roundTiesToEven (- x) = - roundTiesToEven x"
proof -
  let ?f = "\<lfloor>x\<rfloor>"
  let ?d = "x - of_int ?f"
  have d: "0 \<le> ?d" "?d < 1" by linarith+
  consider "?d = 0" | "0 < ?d" "?d < 1 / 2" | "?d = 1 / 2" | "1 / 2 < ?d"
    using d by linarith
  then show ?thesis
  proof cases
    case 1
    then have "x = of_int ?f" by simp
    then show ?thesis
      by (metis of_int_minus roundTiesToEven_of_int)
  next
    case 2
    then have a: "roundTiesToEven x = ?f"
      by (intro roundTiesToEven_eqI) linarith+
    have "real_of_int (- ?f) - 1 / 2 < - x" "- x < real_of_int (- ?f) + 1 / 2"
      using 2 by simp_all
    then have "roundTiesToEven (- x) = - ?f"
      by (rule roundTiesToEven_eqI)
    with a show ?thesis by simp
  next
    case 3
    then have x: "x = of_int ?f + 1 / 2" by simp
    then have mx: "- x = of_int (- ?f - 1) + 1 / 2" by simp
    have "roundTiesToEven x = (if even ?f then ?f else ?f + 1)"
      by (subst x) (rule roundTiesToEven_half)
    moreover have "roundTiesToEven (- x) = (if even (- ?f - 1) then - ?f - 1 else - ?f - 1 + 1)"
      by (subst mx) (rule roundTiesToEven_half)
    ultimately show ?thesis by auto
  next
    case 4
    have "real_of_int (?f + 1) - 1 / 2 < x" "x < real_of_int (?f + 1) + 1 / 2"
      using 4 d by simp_all
    then have a: "roundTiesToEven x = ?f + 1"
      by (rule roundTiesToEven_eqI)
    have "real_of_int (- (?f + 1)) - 1 / 2 < - x" "- x < real_of_int (- (?f + 1)) + 1 / 2"
      using 4 d by simp_all
    then have "roundTiesToEven (- x) = - (?f + 1)"
      by (rule roundTiesToEven_eqI)
    with a show ?thesis by simp
  qed
qed

lemma floor_log2_eqI:
  assumes "2 powi e \<le> \<bar>x\<bar>" and "\<bar>x\<bar> < 2 powi (e + 1)"
  shows "\<lfloor>log 2 \<bar>x\<bar>\<rfloor> = e"
proof -
  have "(0::real) < 2 powi e" by simp
  with assms(1) have pos: "0 < \<bar>x\<bar>" by linarith
  have "(2::real) powr real_of_int e = 2 powi e" "(2::real) powr (real_of_int e + 1) = 2 powi (e + 1)"
    using powr_real_of_int' [of "2::real" e] powr_real_of_int' [of "2::real" "e + 1"] by simp_all
  with assms pos show ?thesis
    by (simp add: floor_log_eq_powr_iff)
qed

lemma rnd_eval:
  assumes "2 powi e \<le> \<bar>x\<bar>" and "\<bar>x\<bar> < 2 powi (e + 1)" and "- 1022 \<le> e"
    and "roundTiesToEven (x / 2 powi (e - 52)) = m"
    and "\<bar>real_of_int m * 2 powi (e - 52)\<bar> < 2 ^ 1024"
  shows "rnd x = Finite (of_int m * 2 powi (e - 52))"
proof -
  have "(0::real) < 2 powi e" by simp
  with assms(1) have "0 < \<bar>x\<bar>" by linarith
  then have "x \<noteq> 0" by auto
  moreover have "max \<lfloor>log 2 \<bar>x\<bar>\<rfloor> (- 1022) = e"
    using floor_log2_eqI [OF assms(1,2)] assms(3) by simp
  ultimately show ?thesis
    using assms(4,5) by (simp add: rnd_def Let_def)
qed

lemma rnd_zero: "rnd 0 = Finite 0"
  by (simp add: rnd_def)


lemma rnd_minus: "rnd (- x) = dneg (rnd x)"
  by (simp add: rnd_def Let_def roundTiesToEven_minus)

lemma floor_log2_less:
  assumes "x \<noteq> 0" and "\<bar>x\<bar> < 2 powi k"
  shows "\<lfloor>log 2 \<bar>x\<bar>\<rfloor> < k"
proof -
  have "(2::real) powr real_of_int k = 2 powi k"
    using powr_real_of_int' [of "2::real" k] by simp
  with assms have "\<bar>x\<bar> < 2 powr real_of_int k" by simp
  with assms(1) have "log 2 \<bar>x\<bar> < real_of_int k"
    by (simp add: less_powr_iff)
  then show ?thesis by (simp add: floor_less_iff)
qed

lemma rnd_dyadic:
  assumes "\<bar>m\<bar> < 2 ^ 53" and "n \<le> 1074"
  shows "rnd (real_of_int m / 2 ^ n) = Finite (real_of_int m / 2 ^ n)"
proof (cases "m = 0")
  case True
  then show ?thesis by (simp add: rnd_def)
next
  case False
  let ?x = "real_of_int m / 2 ^ n"
  let ?E = "max \<lfloor>log 2 \<bar>?x\<bar>\<rfloor> (- 1022) - 52"
  from False have x0: "?x \<noteq> 0" by simp
  have "\<bar>?x\<bar> = \<bar>real_of_int m\<bar> / 2 ^ n" by simp
  also have "\<dots> < 2 ^ 53 / 2 ^ n"
    using assms(1) by (simp add: divide_strict_right_mono flip: of_int_abs)
  also have "\<dots> = 2 powi (53 - int n)"
    by (simp add: power_int_diff)
  finally have "\<lfloor>log 2 \<bar>?x\<bar>\<rfloor> < 53 - int n"
    using floor_log2_less [OF x0] by blast
  with assms(2) have E: "?E \<le> - int n" by simp
  define k where "k = nat (- int n - ?E)"
  from E have k: "int k = - int n - ?E" by (simp add: k_def)
  have "(2::real) powi (- int n) / 2 powi ?E = 2 powi (- int n - ?E)"
    by (simp add: power_int_diff)
  also have "\<dots> = 2 ^ k"
    by (simp only: k [symmetric] power_int_of_nat)
  finally have quot: "(2::real) powi (- int n) / 2 powi ?E = 2 ^ k" .
  have xn: "?x = real_of_int m * 2 powi (- int n)"
    by (simp add: power_int_minus field_simps)
  have "?x / 2 powi ?E = real_of_int m * (2 powi (- int n) / 2 powi ?E)"
    by (simp only: xn times_divide_eq_right)
  also have "\<dots> = real_of_int m * 2 ^ k"
    by (simp only: quot)
  also have "\<dots> = real_of_int (m * 2 ^ k)"
    by simp
  finally have q: "?x / 2 powi ?E = real_of_int (m * 2 ^ k)" .
  have r: "roundTiesToEven (?x / 2 powi ?E) = m * 2 ^ k"
    by (simp only: q roundTiesToEven_of_int)
  have y: "real_of_int (m * 2 ^ k) * 2 powi ?E = ?x"
    using q by (simp add: field_simps)
  have "\<bar>?x\<bar> \<le> \<bar>real_of_int m\<bar>"
    by (simp add: field_simps mult_le_cancel_left1 abs_mult)
  also have "\<dots> < 2 ^ 53"
    using assms(1) by (simp flip: of_int_abs)
  also have "\<dots> < (2::real) ^ 1024" by simp
  finally have small: "\<not> 2 ^ 1024 \<le> \<bar>?x\<bar>" by simp
  show ?thesis
    unfolding rnd_def Let_def r y using x0 small by simp
qed

lemma rnd_of_int:
  assumes "\<bar>m\<bar> < 2 ^ 53"
  shows "rnd (real_of_int m) = Finite (real_of_int m)"
  using rnd_dyadic [OF assms, of 0] by simp

lemma rnd_one: "rnd 1 = Finite 1"
  using rnd_of_int [of 1] by simp

lemma rnd_numeral: "(numeral w :: int) < 2 ^ 53 \<Longrightarrow> rnd (numeral w) = Finite (numeral w)"
  using rnd_of_int [of "numeral w"] by simp

lemma rnd_half: "rnd (1 / 2) = Finite (1 / 2)"
  using rnd_dyadic [of 1 1] by simp

lemma rnd_quarter: "rnd (1 / 4) = Finite (1 / 4)"
  using rnd_dyadic [of 1 2] by simp

lemma rnd_three_quarters: "rnd (3 / 4) = Finite (3 / 4)"
  using rnd_dyadic [of 3 2] by simp

lemma rnd_three_halves: "rnd (3 / 2) = Finite (3 / 2)"
  using rnd_dyadic [of 3 1] by simp

lemma rnd_seven_quarters: "rnd (7 / 4) = Finite (7 / 4)"
  using rnd_dyadic [of 7 2] by simp

text \<open>The quotients \<open>1 / 10\<close> and \<open>2 / 10\<close>, their rounded sum, and \<open>3 / 10\<close>.\<close>

lemma rnd_tenth: "rnd (1 / 10) = Finite (7205759403792794 / 2 ^ 56)"
proof -
  have "rnd (1 / 10) = Finite (real_of_int 7205759403792794 * 2 powi (- 4 - 52))"
  proof (rule rnd_eval)
    show "roundTiesToEven (1 / 10 / 2 powi (- 4 - 52)) = 7205759403792794"
      by (rule roundTiesToEven_eqI) simp_all
  qed simp_all
  then show ?thesis by simp
qed

lemma rnd_fifth: "rnd (1 / 5) = Finite (7205759403792794 / 2 ^ 55)"
proof -
  have "rnd (1 / 5) = Finite (real_of_int 7205759403792794 * 2 powi (- 3 - 52))"
  proof (rule rnd_eval)
    show "roundTiesToEven (1 / 5 / 2 powi (- 3 - 52)) = 7205759403792794"
      by (rule roundTiesToEven_eqI) simp_all
  qed simp_all
  then show ?thesis by simp
qed

lemma rnd_tenth_exact: "rnd (3602879701896397 / 36028797018963968) = Finite (3602879701896397 / 36028797018963968)"
  using rnd_dyadic [of 3602879701896397 55] by simp

lemma rnd_fifth_exact: "rnd (3602879701896397 / 18014398509481984) = Finite (3602879701896397 / 18014398509481984)"
  using rnd_dyadic [of 3602879701896397 54] by simp

lemma rnd_tenth_plus_fifth: "rnd (10808639105689191 / 36028797018963968) = Finite (5404319552844596 / 2 ^ 54)"
proof -
  have "rnd (10808639105689191 / 36028797018963968) = Finite (real_of_int 5404319552844596 * 2 powi (- 2 - 52))"
  proof (rule rnd_eval)
    show "roundTiesToEven (10808639105689191 / 36028797018963968 / 2 powi (- 2 - 52)) = 5404319552844596"
      using roundTiesToEven_half [of 5404319552844595] by simp
  qed simp_all
  then show ?thesis by simp
qed

lemma rnd_three_tenths: "rnd (3 / 10) = Finite (5404319552844595 / 2 ^ 54)"
proof -
  have "rnd (3 / 10) = Finite (real_of_int 5404319552844595 * 2 powi (- 2 - 52))"
  proof (rule rnd_eval)
    show "roundTiesToEven (3 / 10 / 2 powi (- 2 - 52)) = 5404319552844595"
      by (rule roundTiesToEven_eqI) simp_all
  qed simp_all
  then show ?thesis by simp
qed

text \<open>The quotient \<open>1 / 6\<close> and the partial sums of six such quotients.\<close>

lemma rnd_sixth: "rnd (1 / 6) = Finite (6004799503160661 / 2 ^ 55)"
proof -
  have "rnd (1 / 6) = Finite (real_of_int 6004799503160661 * 2 powi (- 3 - 52))"
  proof (rule rnd_eval)
    show "roundTiesToEven (1 / 6 / 2 powi (- 3 - 52)) = 6004799503160661"
      by (rule roundTiesToEven_eqI) simp_all
  qed simp_all
  then show ?thesis by simp
qed

lemma rnd_sixth_exact: "rnd (6004799503160661 / 36028797018963968) = Finite (6004799503160661 / 36028797018963968)"
  using rnd_dyadic [of 6004799503160661 55] by simp

lemma rnd_two_sixths: "rnd (6004799503160661 / 18014398509481984) = Finite (6004799503160661 / 18014398509481984)"
  using rnd_dyadic [of 6004799503160661 54] by simp

lemma rnd_three_sixths: "rnd (18014398509481983 / 36028797018963968) = Finite (9007199254740992 / 2 ^ 54)"
proof -
  have "rnd (18014398509481983 / 36028797018963968) = Finite (real_of_int 9007199254740992 * 2 powi (- 2 - 52))"
  proof (rule rnd_eval)
    show "roundTiesToEven (18014398509481983 / 36028797018963968 / 2 powi (- 2 - 52)) = 9007199254740992"
      using roundTiesToEven_half [of 9007199254740991] by simp
  qed simp_all
  then show ?thesis by simp
qed

lemma rnd_four_sixths: "rnd (24019198012642645 / 36028797018963968) = Finite (6004799503160661 / 2 ^ 53)"
proof -
  have "rnd (24019198012642645 / 36028797018963968) = Finite (real_of_int 6004799503160661 * 2 powi (- 1 - 52))"
  proof (rule rnd_eval)
    show "roundTiesToEven (24019198012642645 / 36028797018963968 / 2 powi (- 1 - 52)) = 6004799503160661"
      by (rule roundTiesToEven_eqI) simp_all
  qed simp_all
  then show ?thesis by simp
qed

lemma rnd_five_sixths: "rnd (30023997515803305 / 36028797018963968) = Finite (7505999378950826 / 2 ^ 53)"
proof -
  have "rnd (30023997515803305 / 36028797018963968) = Finite (real_of_int 7505999378950826 * 2 powi (- 1 - 52))"
  proof (rule rnd_eval)
    show "roundTiesToEven (30023997515803305 / 36028797018963968 / 2 powi (- 1 - 52)) = 7505999378950826"
      by (rule roundTiesToEven_eqI) simp_all
  qed simp_all
  then show ?thesis by simp
qed

lemma rnd_six_sixths: "rnd (36028797018963965 / 36028797018963968) = Finite (9007199254740991 / 2 ^ 53)"
proof -
  have "rnd (36028797018963965 / 36028797018963968) = Finite (real_of_int 9007199254740991 * 2 powi (- 1 - 52))"
  proof (rule rnd_eval)
    show "roundTiesToEven (36028797018963965 / 36028797018963968 / 2 powi (- 1 - 52)) = 9007199254740991"
      by (rule roundTiesToEven_eqI) simp_all
  qed simp_all
  then show ?thesis by simp
qed

lemma dneg_dadd: "dneg (dadd x y) = dadd (dneg x) (dneg y)"
  by (cases x; cases y) (simp_all add: rnd_minus [symmetric])

lemma dsub_NaN: "dsub x NaN = NaN"
  by (cases x) (simp_all add: dsub_def)

lemma log2_half: "log 2 (1 / 2) = - 1"
  by (simp add: log_divide)

lemma log2_four: "log 2 4 = 2"
proof -
  have "log 2 (2 ^ 2) = real 2 * log 2 2"
    by (rule log_nat_power) simp
  then show ?thesis by simp
qed

lemma log2_quarter: "log 2 (1 / 4) = - 2"
  by (simp add: log_divide log2_four)

text \<open>The two sums \<open>0.5 + 0.4999999998\<close> and \<open>0.5 + 0.49\<close>, rounded.\<close>

lemma rnd_sum_09999999998: "rnd (4999999999 / 5000000000) = Finite (9007199252939552 / 2 ^ 53)"
proof -
  have "rnd (4999999999 / 5000000000) = Finite (real_of_int 9007199252939552 * 2 powi (- 1 - 52))"
  proof (rule rnd_eval)
    show "roundTiesToEven (4999999999 / 5000000000 / 2 powi (- 1 - 52)) = 9007199252939552"
      by (rule roundTiesToEven_eqI) simp_all
  qed simp_all
  then show ?thesis by simp
qed

lemma rnd_sum_099: "rnd (99 / 100) = Finite (8917127262193582 / 2 ^ 53)"
proof -
  have "rnd (99 / 100) = Finite (real_of_int 8917127262193582 * 2 powi (- 1 - 52))"
  proof (rule rnd_eval)
    show "roundTiesToEven (99 / 100 / 2 powi (- 1 - 52)) = 8917127262193582"
      by (rule roundTiesToEven_eqI) simp_all
  qed simp_all
  then show ?thesis by simp
qed

text \<open>
  The literals \<open>0.49\<close> and \<open>0.4999999998\<close> are not binary64 numbers: the program
  receives the doubles nearest to them. The sums with \<open>0.5\<close> of these two doubles:
\<close>

lemma rnd_literal_049: "rnd (49 / 100) = Finite (8827055269646172 / 2 ^ 54)"
proof -
  have "rnd (49 / 100) = Finite (real_of_int 8827055269646172 * 2 powi (- 2 - 52))"
  proof (rule rnd_eval)
    show "roundTiesToEven (49 / 100 / 2 powi (- 2 - 52)) = 8827055269646172"
      by (rule roundTiesToEven_eqI) simp_all
  qed simp_all
  then show ?thesis by simp
qed

lemma rnd_half_plus_literal_049: "rnd (4458563631096791 / 4503599627370496) = Finite (8917127262193582 / 2 ^ 53)"
proof -
  have "rnd (4458563631096791 / 4503599627370496) = Finite (real_of_int 8917127262193582 * 2 powi (- 1 - 52))"
  proof (rule rnd_eval)
    show "roundTiesToEven (4458563631096791 / 4503599627370496 / 2 powi (- 1 - 52)) = 8917127262193582"
      by (rule roundTiesToEven_eqI) simp_all
  qed simp_all
  then show ?thesis by simp
qed

lemma rnd_literal_04999999998: "rnd (2499999999 / 5000000000) = Finite (9007199251138112 / 2 ^ 54)"
proof -
  have "rnd (2499999999 / 5000000000) = Finite (real_of_int 9007199251138112 * 2 powi (- 2 - 52))"
  proof (rule rnd_eval)
    show "roundTiesToEven (2499999999 / 5000000000 / 2 powi (- 2 - 52)) = 9007199251138112"
      by (rule roundTiesToEven_eqI) simp_all
  qed simp_all
  then show ?thesis by simp
qed

lemma rnd_half_plus_literal_04999999998: "rnd (281474976654361 / 281474976710656) = Finite (9007199252939552 / 2 ^ 53)"
proof -
  have "rnd (281474976654361 / 281474976710656) = Finite (real_of_int 9007199252939552 * 2 powi (- 1 - 52))"
  proof (rule rnd_eval)
    show "roundTiesToEven (281474976654361 / 281474976710656 / 2 powi (- 1 - 52)) = 9007199252939552"
      by (rule roundTiesToEven_eqI) simp_all
  qed simp_all
  then show ?thesis by simp
qed

subsection \<open>The loops of \<^verbatim>\<open>calculateEntropy\<close>\<close>

lemma entropyLoop_NaN: "entropyLoop NaN ps = NaN"
  by (induction ps) (simp_all add: dsub_def)

text \<open>
  A probability of exactly 0 turns the accumulator into a NaN, since
  \<^verbatim>\<open>0 * log2(0)\<close> is \<^verbatim>\<open>0 * -inf\<close>; it stays a NaN to the end of the loop.
\<close>

lemma entropyLoop_zero_probability:
  "Finite 0 \<in> set ps \<Longrightarrow> entropyLoop e ps = NaN"
  by (induction ps arbitrary: e) (auto simp: inf_times_def dsub_NaN entropyLoop_NaN)

lemma calculateEntropy_zero_probability:
  "Finite 0 \<in> set ps \<Longrightarrow> sumOfProbabilites (Finite 0) ps = Finite 1 \<Longrightarrow>
   calculateEntropy ps = Inr NaN"
  by (simp add: calculateEntropy_def dne_def entropyLoop_zero_probability)

text \<open>
  The loop subtracts the products one after the other; the result is the negated sum
  of the products, since rounding is symmetric.
\<close>

lemma entropyLoop_formula:
  "entropyLoop (dneg acc) ps = dneg (foldl dadd acc (map (\<lambda>p. dmul p (dlog2 p)) ps))"
  by (induction ps arbitrary: acc) (simp_all add: dsub_def dneg_dadd [symmetric])

lemma sumOfProbabilites_exact:
  "sumWithoutRounding s ps \<Longrightarrow>
   sumOfProbabilites (Finite s) (map Finite ps) = Finite (s + sum_list ps)"
  by (induction ps arbitrary: s) (simp_all add: representable_def add.assoc)

lemma entropyLoop_exact:
  "entropyWithoutRounding e ps \<Longrightarrow>
   entropyLoop (Finite e) (map Finite ps) = Finite (e - (\<Sum>p \<leftarrow> ps. p * log 2 p))"
  by (induction ps arbitrary: e) (simp_all add: representable_def dsub_def algebra_simps)

subsection \<open>The loop of \<^verbatim>\<open>calculateAverageInformationEntropy\<close>\<close>

lemma averageLoop_accepts:
  "\<forall>(c, e) \<in> set ps. c \<le> t \<Longrightarrow>
   averageLoop t acc ps = Inr (foldl dadd acc (map (weightedTerm t) ps))"
  by (induction t acc ps rule: averageLoop.induct) (auto simp: weightedTerm_def)

lemma averageLoop_snoc:
  "averageLoop t acc ps = Inr r \<Longrightarrow>
   averageLoop t acc (ps @ [(c, e)]) =
     (if c > t then Inl InvalidNumberOfEntriesException
      else Inr (dadd r (dmul (ddiv (double_of_int c) (double_of_int t)) e)))"
  by (induction t acc ps rule: averageLoop.induct) (auto split: if_splits)

lemma averageLoop_error_iff:
  "averageLoop t acc ps = Inl InvalidNumberOfEntriesException \<longleftrightarrow> (\<exists>(c, e) \<in> set ps. t < c)"
  by (induction t acc ps rule: averageLoop.induct) auto

lemma averageLoop_error_kind:
  "averageLoop t acc ps = Inl err \<Longrightarrow> err = InvalidNumberOfEntriesException"
  by (induction t acc ps rule: averageLoop.induct) (auto split: if_splits)

lemma averageLoop_exact:
  assumes "t \<noteq> 0"
  shows "averageWithoutRounding t acc qs \<Longrightarrow> \<forall>(c, e) \<in> set qs. c \<le> t \<Longrightarrow>
    averageLoop t (Finite acc) (map (\<lambda>(c, e). (c, Finite e)) qs) =
      Inr (Finite (acc + (\<Sum>(c, e) \<leftarrow> qs. (real_of_int c / real_of_int t) * e)))"
proof (induction qs arbitrary: acc)
  case Nil
  then show ?case by simp
next
  case (Cons q qs)
  obtain c e where q: "q = (c, e)" by (cases q)
  let ?w = "real_of_int c / real_of_int t * e"
  from Cons.prems q have r: "rnd (real_of_int c) = Finite (real_of_int c)"
      "rnd (real_of_int t) = Finite (real_of_int t)"
      "rnd (real_of_int c / real_of_int t) = Finite (real_of_int c / real_of_int t)"
      "rnd ?w = Finite ?w" "rnd (acc + ?w) = Finite (acc + ?w)"
    and rest: "averageWithoutRounding t (acc + ?w) qs"
    and le: "c \<le> t" "\<forall>(c, e) \<in> set qs. c \<le> t"
    by (simp_all add: representable_def)
  from assms have t: "real_of_int t \<noteq> 0" by simp
  from le(1) have nlt: "\<not> c > t" by simp
  have "dadd (Finite acc) (dmul (ddiv (double_of_int c) (double_of_int t)) (Finite e))
      = Finite (acc + ?w)"
    by (simp only: double_of_int_def r ddiv.simps dmul.simps dadd.simps t if_False)
  then have "averageLoop t (Finite acc) (map (\<lambda>(c, e). (c, Finite e)) (q # qs))
      = averageLoop t (Finite (acc + ?w)) (map (\<lambda>(c, e). (c, Finite e)) qs)"
    by (simp only: q list.map prod.case averageLoop.simps nlt if_False)
  also have "\<dots> = Inr (Finite (acc + ?w + (\<Sum>(c, e) \<leftarrow> qs. (real_of_int c / real_of_int t) * e)))"
    by (rule Cons.IH [OF rest le(2)])
  finally show ?case by (simp add: q add.assoc)
qed

subsection \<open>Properties of \<^verbatim>\<open>calculateEntropy\<close>\<close>

text \<open>
  C1. The claim: on a distribution that sums to 1 and has an entry equal to 0,
  \<^verbatim>\<open>calculateEntropy\<close> returns the Shannon entropy with \<open>0 \<cdot> log2 0 = 0\<close>, a
  well-defined number. The code has no guard for the entry 0: on the distribution
  \<open>[1.0, 0.0]\<close>, whose entropy is 0, it returns a NaN.
\<close>

theorem calculateEntropy_zero_entry_is_NaN:
  "calculateEntropy [Finite 1, Finite 0] = Inr NaN"
  by (simp add: calculateEntropy_def dne_def dsub_def inf_times_def rnd_one rnd_zero)

text \<open>
  C2, as claimed: a distribution whose sum is within a small tolerance of 1 is
  accepted. It fails on the code: the sum of \<open>[0.5, 0.4999999998]\<close> is within
  \<open>10\<^sup>-\<^sup>9\<close> of 1, and \<^verbatim>\<open>calculateEntropy\<close> raises
  \<^verbatim>\<open>InvalidSumOfProbabilitiesException\<close>.
\<close>

theorem calculateEntropy_no_tolerance_counterexample:
  "withinTolerance (1 / 10 ^ 9) (sumOfProbabilites (Finite 0) [Finite 0.5, Finite 0.4999999998])
   \<and> calculateEntropy [Finite 0.5, Finite 0.4999999998] = Inl InvalidSumOfProbabilitiesException"
  by (simp add: calculateEntropy_def dne_def withinTolerance_def rnd_half
      rnd_sum_09999999998)

text \<open>
  C2, amended: \<^verbatim>\<open>calculateEntropy\<close> returns an entropy value exactly when the sum
  accumulated by its first loop is equal to 1; every other sum, however close to 1,
  raises \<^verbatim>\<open>InvalidSumOfProbabilitiesException\<close>.
\<close>

theorem calculateEntropy_accepts_iff_sum_is_one:
  "((\<exists>e. calculateEntropy ps = Inr e) \<longleftrightarrow> sumOfProbabilites (Finite 0) ps = Finite 1)
   \<and> (sumOfProbabilites (Finite 0) ps \<noteq> Finite 1 \<longrightarrow>
        calculateEntropy ps = Inl InvalidSumOfProbabilitiesException)"
  by (auto simp: calculateEntropy_def dne_def)

theorem calculateEntropy_accepts_iff_sum_is_one_witness:
  "sumOfProbabilites (Finite 0) [Finite 0.25, Finite 0.5] \<noteq> Finite 1
   \<and> calculateEntropy [Finite 0.25, Finite 0.5] = Inl InvalidSumOfProbabilitiesException
   \<and> (\<nexists>e. calculateEntropy [Finite 0.25, Finite 0.5] = Inr e)"
proof -
  have h: "sumOfProbabilites (Finite 0) [Finite 0.25, Finite 0.5] \<noteq> Finite 1"
    by (simp add: rnd_quarter rnd_three_quarters)
  show ?thesis
    using h calculateEntropy_accepts_iff_sum_is_one [of "[Finite 0.25, Finite 0.5]"]
    by simp
qed

text \<open>
  C5. A sequence whose sum deviates from 1 beyond the tolerance, whatever the
  tolerance \<open>eps \<ge> 0\<close> is, makes \<^verbatim>\<open>calculateEntropy\<close> raise
  \<^verbatim>\<open>InvalidSumOfProbabilitiesException\<close>; no entropy is returned. In particular
  \<open>[0.5, 0.49]\<close> is rejected.
\<close>

theorem calculateEntropy_rejects_beyond_tolerance:
  "(0 \<le> eps \<and> \<not> withinTolerance eps (sumOfProbabilites (Finite 0) ps) \<longrightarrow>
      calculateEntropy ps = Inl InvalidSumOfProbabilitiesException)
   \<and> calculateEntropy [Finite 0.5, Finite 0.49] = Inl InvalidSumOfProbabilitiesException"
proof (intro conjI impI)
  assume "0 \<le> eps \<and> \<not> withinTolerance eps (sumOfProbabilites (Finite 0) ps)"
  then show "calculateEntropy ps = Inl InvalidSumOfProbabilitiesException"
    by (auto simp: calculateEntropy_def dne_def withinTolerance_def)
next
  show "calculateEntropy [Finite 0.5, Finite 0.49] = Inl InvalidSumOfProbabilitiesException"
    by (simp add: calculateEntropy_def dne_def rnd_half rnd_sum_099)
qed

theorem calculateEntropy_rejects_beyond_tolerance_witness:
  "(0::real) \<le> 1 / 10 ^ 9
   \<and> \<not> withinTolerance (1 / 10 ^ 9) (sumOfProbabilites (Finite 0) [Finite 0.5, Finite 0.25])
   \<and> calculateEntropy [Finite 0.5, Finite 0.25] = Inl InvalidSumOfProbabilitiesException"
proof -
  have h: "\<not> withinTolerance (1 / 10 ^ 9) (sumOfProbabilites (Finite 0) [Finite 0.5, Finite 0.25])"
    by (simp add: withinTolerance_def rnd_half rnd_three_quarters)
  show ?thesis
    using h calculateEntropy_rejects_beyond_tolerance
              [of "1 / 10 ^ 9" "[Finite 0.5, Finite 0.25]"]
    by simp
qed

text \<open>
  The two rejected inputs of C2 and C5 with the decimal literals replaced by the doubles
  nearest to them: the verdicts are the same.
\<close>

lemma calculateEntropy_rejects_nearest_doubles:
  "rnd 0.49 = Finite (2206763817411543 / 2 ^ 52)
   \<and> calculateEntropy [Finite 0.5, Finite (2206763817411543 / 2 ^ 52)]
       = Inl InvalidSumOfProbabilitiesException
   \<and> rnd 0.4999999998 = Finite (140737488299033 / 2 ^ 48)
   \<and> withinTolerance (1 / 10 ^ 9)
        (sumOfProbabilites (Finite 0) [Finite 0.5, Finite (140737488299033 / 2 ^ 48)])
   \<and> calculateEntropy [Finite 0.5, Finite (140737488299033 / 2 ^ 48)]
       = Inl InvalidSumOfProbabilitiesException"
  by (simp add: calculateEntropy_def dne_def withinTolerance_def rnd_half rnd_literal_049
      rnd_half_plus_literal_049 rnd_literal_04999999998
      rnd_half_plus_literal_04999999998)

text \<open>
  C7. On every accepted sequence \<^verbatim>\<open>calculateEntropy\<close> returns the formula
  \<open>- \<Sigma> p\<^sub>i \<cdot> log2 p\<^sub>i\<close> as evaluated in \<^verbatim>\<open>double\<close>: the negated sum, accumulated in
  order, of the rounded products. When no operation rounds, this is the Shannon
  entropy over the reals. On the reference inputs it returns exactly 0 for \<open>[1.0]\<close>,
  1 for \<open>[0.5, 0.5]\<close> and 2 for \<open>[0.25, 0.25, 0.25, 0.25]\<close>.
\<close>

theorem calculateEntropy_reference_values:
  "(calculateEntropy ps = Inr e \<longrightarrow> e = entropyFormula ps)
   \<and> (sumWithoutRounding 0 qs \<and> sum_list qs = 1 \<and> entropyWithoutRounding 0 qs \<longrightarrow>
        calculateEntropy (map Finite qs) = Inr (Finite (shannonEntropy qs)))
   \<and> calculateEntropy [Finite 1] = Inr (Finite 0)
   \<and> calculateEntropy [Finite 0.5, Finite 0.5] = Inr (Finite 1)
   \<and> calculateEntropy [Finite 0.25, Finite 0.25, Finite 0.25, Finite 0.25] = Inr (Finite 2)"
proof (intro conjI impI)
  assume "calculateEntropy ps = Inr e"
  then have "e = entropyLoop (Finite 0) ps"
    by (simp add: calculateEntropy_def split: if_splits)
  also have "\<dots> = entropyLoop (dneg (Finite 0)) ps" by simp
  also have "\<dots> = entropyFormula ps"
    by (simp only: entropyLoop_formula entropyFormula_def dsum_def)
  finally show "e = entropyFormula ps" .
next
  assume "sumWithoutRounding 0 qs \<and> sum_list qs = 1 \<and> entropyWithoutRounding 0 qs"
  then show "calculateEntropy (map Finite qs) = Inr (Finite (shannonEntropy qs))"
    by (simp add: calculateEntropy_def dne_def sumOfProbabilites_exact entropyLoop_exact
        shannonEntropy_def)
next
  show "calculateEntropy [Finite 1] = Inr (Finite 0)"
    by (simp add: calculateEntropy_def dne_def dsub_def rnd_one rnd_zero)
next
  show "calculateEntropy [Finite 0.5, Finite 0.5] = Inr (Finite 1)"
    by (simp add: calculateEntropy_def dne_def dsub_def log2_half rnd_minus rnd_one rnd_half)
next
  show "calculateEntropy [Finite 0.25, Finite 0.25, Finite 0.25, Finite 0.25] = Inr (Finite 2)"
    by (simp add: calculateEntropy_def dne_def dsub_def log2_quarter rnd_minus rnd_one
        rnd_numeral rnd_half rnd_quarter rnd_three_quarters rnd_three_halves)
qed

theorem calculateEntropy_reference_values_witness:
  "sumWithoutRounding 0 [1 / 2, 1 / 4, 1 / 4] \<and> sum_list [1 / 2, 1 / 4, 1 / 4 :: real] = 1
   \<and> entropyWithoutRounding 0 [1 / 2, 1 / 4, 1 / 4]
   \<and> calculateEntropy [Finite (1 / 2), Finite (1 / 4), Finite (1 / 4)] = Inr (Finite (3 / 2))
   \<and> entropyFormula [Finite (1 / 2), Finite (1 / 4), Finite (1 / 4)] = Finite (3 / 2)"
proof -
  have h: "sumWithoutRounding 0 [1 / 2, 1 / 4, 1 / 4] \<and> sum_list [1 / 2, 1 / 4, 1 / 4 :: real] = 1
      \<and> entropyWithoutRounding 0 [1 / 2, 1 / 4, 1 / 4]"
    by (simp add: representable_def log2_half log2_quarter rnd_minus rnd_one rnd_numeral
        rnd_half rnd_quarter rnd_three_quarters rnd_three_halves)
  have r: "calculateEntropy [Finite (1 / 2), Finite (1 / 4), Finite (1 / 4)] = Inr (Finite (3 / 2))"
    using h calculateEntropy_reference_values
              [of "[Finite (1 / 2), Finite (1 / 4), Finite (1 / 4)]" "Finite (3 / 2)"
                  "[1 / 2, 1 / 4, 1 / 4]"]
    by (simp add: shannonEntropy_def log2_half log2_quarter)
  show ?thesis
    using h r calculateEntropy_reference_values
              [of "[Finite (1 / 2), Finite (1 / 4), Finite (1 / 4)]" "Finite (3 / 2)"
                  "[1 / 2, 1 / 4, 1 / 4]"]
    by simp
qed

subsection \<open>Properties of \<^verbatim>\<open>calculateAverageInformationEntropy\<close>\<close>

text \<open>
  C4. \<^verbatim>\<open>calculateAverageInformationEntropy\<close> raises
  \<^verbatim>\<open>InvalidNumberOfEntriesException\<close> if and only if some count of the list is higher
  than the total; it raises nothing else. In particular it raises on
  \<open>(10, [(11, 0.5)])\<close>.
\<close>

theorem calculateAverageInformationEntropy_fails_iff:
  "(calculateAverageInformationEntropy t ps = Inl InvalidNumberOfEntriesException
      \<longleftrightarrow> (\<exists>(c, e) \<in> set ps. t < c))
   \<and> calculateAverageInformationEntropy t ps \<noteq> Inl InvalidSumOfProbabilitiesException
   \<and> calculateAverageInformationEntropy 10 [(11, Finite 0.5)]
       = Inl InvalidNumberOfEntriesException"
proof (intro conjI)
  show "calculateAverageInformationEntropy t ps = Inl InvalidNumberOfEntriesException
      \<longleftrightarrow> (\<exists>(c, e) \<in> set ps. t < c)"
    by (simp only: calculateAverageInformationEntropy_def averageLoop_error_iff)
next
  show "calculateAverageInformationEntropy t ps \<noteq> Inl InvalidSumOfProbabilitiesException"
    using averageLoop_error_kind [of t "Finite 0" ps InvalidSumOfProbabilitiesException]
    by (auto simp: calculateAverageInformationEntropy_def)
next
  show "calculateAverageInformationEntropy 10 [(11, Finite 0.5)]
       = Inl InvalidNumberOfEntriesException"
    by (simp add: calculateAverageInformationEntropy_def)
qed

theorem calculateAverageInformationEntropy_fails_iff_witness:
  "(\<exists>(c, e) \<in> set [(3, Finite 1), (6, Finite 0)]. (5::int) < c)
   \<and> calculateAverageInformationEntropy 5 [(3, Finite 1), (6, Finite 0)]
       = Inl InvalidNumberOfEntriesException
   \<and> calculateAverageInformationEntropy 5 [(3, Finite 1), (5, Finite 0)]
       \<noteq> Inl InvalidNumberOfEntriesException"
  using calculateAverageInformationEntropy_fails_iff [of 5 "[(3, Finite 1), (6, Finite 0)]"]
        calculateAverageInformationEntropy_fails_iff [of 5 "[(3, Finite 1), (5, Finite 0)]"]
  by simp

text \<open>
  C6, as claimed: for a positive total and counts that are all at most the total,
  \<^verbatim>\<open>calculateAverageInformationEntropy\<close> returns exactly the weighted sum
  \<open>\<Sigma> (count\<^sub>i / totalCount) \<cdot> entropy\<^sub>i\<close>. It fails on the code: for the total 10 and
  the pairs \<open>(1, 1.0)\<close> and \<open>(2, 1.0)\<close> the weighted sum is \<open>3 / 10\<close>, and the function
  returns the double \<open>5404319552844596 / 2\<^sup>5\<^sup>4\<close>, which is neither \<open>3 / 10\<close> nor the double
  nearest to it.
\<close>

theorem calculateAverageInformationEntropy_not_exact_counterexample:
  "(0::int) < 10 \<and> (1::int) \<le> 10 \<and> (2::int) \<le> 10
   \<and> calculateAverageInformationEntropy 10 [(1, Finite 1), (2, Finite 1)]
       = Inr (Finite (5404319552844596 / 2 ^ 54))
   \<and> weightedSumReal 10 [(1, 1), (2, 1)] = 3 / 10
   \<and> (5404319552844596 / 2 ^ 54 :: real) \<noteq> 3 / 10
   \<and> rnd (3 / 10) = Finite (5404319552844595 / 2 ^ 54)"
  by (simp add: calculateAverageInformationEntropy_def double_of_int_def weightedSumReal_def
      rnd_one rnd_numeral rnd_tenth rnd_fifth rnd_tenth_exact rnd_fifth_exact
      rnd_tenth_plus_fifth rnd_three_tenths)

text \<open>
  C6, amended: for a positive total and counts that are all at most the total,
  \<^verbatim>\<open>calculateAverageInformationEntropy\<close> returns the sum, accumulated from 0 in the
  order of the list, of the products \<open>(count\<^sub>i / totalCount) \<cdot> entropy\<^sub>i\<close>, where every
  quotient, product and partial sum is rounded to a double. When none of these
  operations rounds, the result is exactly the weighted sum over the reals.
\<close>

theorem calculateAverageInformationEntropy_weighted_sum:
  assumes "0 < t" and "\<forall>(c, e) \<in> set ps. c \<le> t"
  shows "calculateAverageInformationEntropy t ps = Inr (weightedSum t ps)
         \<and> (\<forall>qs. ps = map (\<lambda>(c, e). (c, Finite e)) qs \<and> averageWithoutRounding t 0 qs \<longrightarrow>
              calculateAverageInformationEntropy t ps = Inr (Finite (weightedSumReal t qs)))"
proof (intro conjI allI impI)
  show "calculateAverageInformationEntropy t ps = Inr (weightedSum t ps)"
    using averageLoop_accepts [OF assms(2), of "Finite 0"]
    by (simp add: calculateAverageInformationEntropy_def weightedSum_def dsum_def)
next
  fix qs
  assume h: "ps = map (\<lambda>(c, e). (c, Finite e)) qs \<and> averageWithoutRounding t 0 qs"
  from assms(1) have t: "t \<noteq> 0" by simp
  from h assms(2) have le: "\<forall>(c, e) \<in> set qs. c \<le> t" by auto
  from h have "averageWithoutRounding t 0 qs" by simp
  from averageLoop_exact [OF t this le] h
  show "calculateAverageInformationEntropy t ps = Inr (Finite (weightedSumReal t qs))"
    by (simp add: calculateAverageInformationEntropy_def weightedSumReal_def)
qed

theorem calculateAverageInformationEntropy_weighted_sum_witness:
  "(0::int) < 4 \<and> (1::int) \<le> 4 \<and> (3::int) \<le> 4
   \<and> averageWithoutRounding 4 0 [(1, 1), (3, 2)]
   \<and> weightedSumReal 4 [(1, 1), (3, 2)] = 7 / 4
   \<and> calculateAverageInformationEntropy 4 [(1, Finite 1), (3, Finite 2)] = Inr (Finite (7 / 4))"
proof -
  have h1: "(0::int) < 4" by simp
  have h2: "\<forall>(c, e) \<in> set [(1, Finite 1), (3, Finite 2)]. c \<le> (4::int)" by simp
  have h3: "[(1, Finite 1), (3, Finite 2)] = map (\<lambda>(c, e). (c, Finite e)) [(1::int, 1), (3, 2)]
      \<and> averageWithoutRounding 4 0 [(1, 1), (3, 2)]"
    by (simp add: representable_def rnd_one rnd_numeral rnd_quarter rnd_three_quarters
        rnd_three_halves rnd_seven_quarters)
  have "calculateAverageInformationEntropy 4 [(1, Finite 1), (3, Finite 2)]
        = Inr (Finite (weightedSumReal 4 [(1, 1), (3, 2)]))"
    using calculateAverageInformationEntropy_weighted_sum
            [OF h1 h2, THEN conjunct2, rule_format, OF h3] .
  with h3 show ?thesis
    by (simp add: weightedSumReal_def)
qed

text \<open>
  C9. The check of the partition size is strict. Counts that are at most the total, a
  count equal to the total included, are accepted; a pair whose count is equal to the
  total adds \<open>(count / totalCount) \<cdot> entropy\<close> to the result; an exception comes only
  from a count strictly higher than the total; and negative counts are not rejected:
  with a total that is not negative a list of negative counts is accepted.
\<close>

theorem partition_size_check_is_strict:
  "((\<forall>(c, e) \<in> set ps. c \<le> t) \<longrightarrow> (\<exists>r. calculateAverageInformationEntropy t ps = Inr r))
   \<and> (calculateAverageInformationEntropy t ps = Inr r \<longrightarrow>
        calculateAverageInformationEntropy t (ps @ [(t, e)]) =
          Inr (dadd r (dmul (ddiv (double_of_int t) (double_of_int t)) e)))
   \<and> (calculateAverageInformationEntropy t ps = Inl err \<longrightarrow> (\<exists>(c, e) \<in> set ps. t < c))
   \<and> (0 \<le> t \<and> (\<forall>(c, e) \<in> set ps. c < 0) \<longrightarrow>
        (\<exists>r. calculateAverageInformationEntropy t ps = Inr r))"
proof (intro conjI impI)
  assume "\<forall>(c, e) \<in> set ps. c \<le> t"
  then show "\<exists>r. calculateAverageInformationEntropy t ps = Inr r"
    by (simp add: calculateAverageInformationEntropy_def averageLoop_accepts)
next
  assume "calculateAverageInformationEntropy t ps = Inr r"
  then show "calculateAverageInformationEntropy t (ps @ [(t, e)]) =
          Inr (dadd r (dmul (ddiv (double_of_int t) (double_of_int t)) e))"
    by (simp add: calculateAverageInformationEntropy_def averageLoop_snoc)
next
  assume "calculateAverageInformationEntropy t ps = Inl err"
  then show "\<exists>(c, e) \<in> set ps. t < c"
    using averageLoop_error_kind averageLoop_error_iff
    unfolding calculateAverageInformationEntropy_def by blast
next
  assume "0 \<le> t \<and> (\<forall>(c, e) \<in> set ps. c < 0)"
  then have "\<forall>(c, e) \<in> set ps. c \<le> t" by fastforce
  then show "\<exists>r. calculateAverageInformationEntropy t ps = Inr r"
    by (simp add: calculateAverageInformationEntropy_def averageLoop_accepts)
qed

theorem partition_size_check_is_strict_witness:
  "(0::int) \<le> 4 \<and> (- 2::int) < 0
   \<and> calculateAverageInformationEntropy 4 [(- 2, Finite 1)] = Inr (Finite (- 1 / 2))
   \<and> calculateAverageInformationEntropy 4 [(- 2, Finite 1), (4, Finite 1)] = Inr (Finite (1 / 2))
   \<and> calculateAverageInformationEntropy 4 [(5, Finite 1)] = Inl InvalidNumberOfEntriesException
   \<and> (\<exists>(c, e) \<in> set [(5, Finite 1)]. (4::int) < c)"
proof -
  have h: "calculateAverageInformationEntropy 4 [(- 2, Finite 1)] = Inr (Finite (- 1 / 2))"
    by (simp add: calculateAverageInformationEntropy_def double_of_int_def rnd_minus
        rnd_numeral rnd_half)
  have g: "calculateAverageInformationEntropy 4 [(5, Finite 1)] = Inl InvalidNumberOfEntriesException"
    by (simp add: calculateAverageInformationEntropy_def)
  show ?thesis
    using h g
      partition_size_check_is_strict
        [of "[(- 2, Finite 1)]" 4 "Finite (- 1 / 2)" "Finite 1" InvalidNumberOfEntriesException]
      partition_size_check_is_strict
        [of "[(5, Finite 1)]" 4 "Finite 0" "Finite 1" InvalidNumberOfEntriesException]
    by (simp add: double_of_int_def rnd_numeral rnd_one rnd_half)
qed

text \<open>
  C10. On the empty list of pairs \<^verbatim>\<open>calculateAverageInformationEntropy\<close> returns 0 for
  every total, 0 included: no exception is raised, and the loop body, which holds the
  only division, is never entered.
\<close>

theorem calculateAverageInformationEntropy_empty:
  "calculateAverageInformationEntropy totalNumberOfEntries [] = Inr (Finite 0)"
  by (simp add: calculateAverageInformationEntropy_def)

subsection \<open>Counting rows\<close>

lemma sum_list_count_remdups:
  "(\<Sum>v \<leftarrow> remdups (map f xs). int (length (filter (\<lambda>x. f x = v) xs))) = int (length xs)"
proof -
  have "(\<Sum>v \<leftarrow> remdups (map f xs). int (length (filter (\<lambda>x. f x = v) xs)))
        = (\<Sum>v \<in> set (map f xs). int (length (filter (\<lambda>x. f x = v) xs)))"
    by (simp add: sum_list_distinct_conv_sum_set)
  also have "\<dots> = (\<Sum>v \<in> set (map f xs). int (count_list (map f xs) v))"
    by (rule sum.cong) (auto simp: count_list_eq_length_filter length_filter_map comp_def eq_commute)
  also have "\<dots> = int (sum (count_list (map f xs)) (set (map f xs)))"
    by simp
  also have "\<dots> = int (length (map f xs))"
    by (subst sum_count_set) simp_all
  finally show ?thesis by simp
qed

subsection \<open>Exceptions and gains of the dataset queries\<close>

text \<open>
  The only exception that reaches \<^verbatim>\<open>getAttributeWithHighestInformationGain\<close> is the
  one of \<^verbatim>\<open>calculateEntropy\<close>: the counts handed to
  \<^verbatim>\<open>calculateAverageInformationEntropy\<close> never exceed the number of rows.
\<close>

lemma calculateEntropy_error_kind:
  "calculateEntropy ps = Inl err \<Longrightarrow> err = InvalidSumOfProbabilitiesException"
  by (simp add: calculateEntropy_def split: if_splits)

lemma countEntriesByAttribute_le:
  "countEntriesByAttribute E a v \<le> int (length (data E))"
  by (simp add: countEntriesByAttribute_def)

lemma attributePairs_counts:
  "attributePairs E a vs = Inr ps \<Longrightarrow> \<forall>(c, e) \<in> set ps. c \<le> int (length (data E))"
  by (induction vs arbitrary: ps)
     (auto simp: countEntriesByAttribute_le split: sum.splits)

lemma attributePairs_error_kind:
  "attributePairs E a vs = Inl err \<Longrightarrow> err = InvalidSumOfProbabilitiesException"
  by (induction vs)
     (auto simp: calculateAttributeEntropy_def dest: calculateEntropy_error_kind split: sum.splits)

lemma calculateAttributeAverageInformationEntropy_error_kind:
  assumes "calculateAttributeAverageInformationEntropy E a = Inl err"
  shows "err = InvalidSumOfProbabilitiesException"
proof (cases "attributePairs E a (getAllPossibleAttributeValues E a)")
  case (Inl e)
  with assms show ?thesis
    by (auto simp: calculateAttributeAverageInformationEntropy_def dest: attributePairs_error_kind)
next
  case (Inr ps)
  from attributePairs_counts [OF Inr]
  have "calculateAverageInformationEntropy (int (length (data E))) ps
        = Inr (foldl dadd (Finite 0) (map (weightedTerm (int (length (data E)))) ps))"
    unfolding calculateAverageInformationEntropy_def by (rule averageLoop_accepts)
  with assms Inr show ?thesis
    by (simp add: calculateAttributeAverageInformationEntropy_def)
qed

lemma informationGain_error_kind:
  "informationGain E a = Inl err \<Longrightarrow> err = InvalidSumOfProbabilitiesException"
  by (auto simp: informationGain_def split: sum.splits
      dest: calculateEntropy_error_kind calculateAttributeAverageInformationEntropy_error_kind)

lemma informationGains_error:
  "a \<in> set as \<Longrightarrow> informationGain E a = Inl err \<Longrightarrow>
   informationGains E as = Inl InvalidSumOfProbabilitiesException"
  by (induction as) (auto split: sum.splits dest: informationGain_error_kind)

lemma informationGains_Finite:
  "\<forall>a \<in> set as. informationGain E a = Inr (Finite (g a)) \<Longrightarrow>
   informationGains E as = Inr (map (\<lambda>a. (a, Finite (g a))) as)"
  by (induction as) simp_all

text \<open>
  Six rows of six different classes: each class has the probability \<open>1 / 6\<close>, rounded,
  and the sum of the six doubles is \<open>9007199254740991 / 2\<^sup>5\<^sup>3\<close>, the double below 1.
\<close>

lemma informationGain_six_classes:
  "informationGain
     \<lparr>data = [[''a'', ''x''], [''b'', ''x''], [''c'', ''x''], [''d'', ''x''], [''e'', ''x''], [''f'', ''x'']]\<rparr> 0
   = Inl InvalidSumOfProbabilitiesException"
  by (simp add: informationGain_def classDistribution_def getClasses_def countEntriesByClass_def
      calculateEntropy_def dne_def double_of_int_def rnd_one rnd_numeral rnd_half
      rnd_sixth rnd_sixth_exact rnd_two_sixths rnd_three_sixths rnd_four_sixths
      rnd_five_sixths rnd_six_sixths)

text \<open>Two rows of two classes, told apart by either of two attributes: both gains are 1.\<close>

lemma informationGain_two_rows:
  "informationGain \<lparr>data = [[''yes'', ''x'', ''p''], [''no'', ''y'', ''q'']]\<rparr> 0 = Inr (Finite 1)
   \<and> informationGain \<lparr>data = [[''yes'', ''x'', ''p''], [''no'', ''y'', ''q'']]\<rparr> 1 = Inr (Finite 1)"
  by (simp add: informationGain_def classDistribution_def getClasses_def countEntriesByClass_def
      calculateAttributeAverageInformationEntropy_def getAllPossibleAttributeValues_def
      calculateAttributeEntropy_def entriesWithAttributeValue_def countEntriesByAttribute_def
      calculateEntropy_def calculateAverageInformationEntropy_def double_of_int_def dne_def
      dsub_def log2_half rnd_minus rnd_zero rnd_one rnd_numeral rnd_half)

subsection \<open>The scan for the highest gain\<close>

lemma highestFrom_lowest_maximum:
  assumes "sorted_wrt (<) (b # as)"
  shows "highestFrom (b, Finite (g b)) (map (\<lambda>a. (a, Finite (g a))) as) \<in> set (b # as)
         \<and> (\<forall>a \<in> set (b # as).
               g a \<le> g (highestFrom (b, Finite (g b)) (map (\<lambda>a. (a, Finite (g a))) as))
               \<and> (g a = g (highestFrom (b, Finite (g b)) (map (\<lambda>a. (a, Finite (g a))) as))
                    \<longrightarrow> highestFrom (b, Finite (g b)) (map (\<lambda>a. (a, Finite (g a))) as) \<le> a))"
  using assms
proof (induction as arbitrary: b)
  case Nil
  then show ?case by simp
next
  case (Cons a as)
  let ?rest = "map (\<lambda>a. (a, Finite (g a))) as"
  show ?case
  proof (cases "g b < g a")
    case True
    let ?r = "highestFrom (a, Finite (g a)) ?rest"
    from Cons.prems have "sorted_wrt (<) (a # as)" by simp
    from Cons.IH [OF this]
    have ih: "?r \<in> set (a # as)"
      "\<forall>x \<in> set (a # as). g x \<le> g ?r \<and> (g x = g ?r \<longrightarrow> ?r \<le> x)"
      by blast+
    from ih(2) have "g a \<le> g ?r" by simp
    with True have "g b < g ?r" by simp
    moreover have "highestFrom (b, Finite (g b)) (map (\<lambda>a. (a, Finite (g a))) (a # as)) = ?r"
      using True by simp
    ultimately show ?thesis using ih by auto
  next
    case False
    let ?r = "highestFrom (b, Finite (g b)) ?rest"
    from Cons.prems have "sorted_wrt (<) (b # as)" and ba: "b < a" by auto
    from Cons.IH [OF this(1)]
    have ih: "?r \<in> set (b # as)"
      "\<forall>x \<in> set (b # as). g x \<le> g ?r \<and> (g x = g ?r \<longrightarrow> ?r \<le> x)"
      by blast+
    from ih(2) have b: "g b \<le> g ?r" "g b = g ?r \<longrightarrow> ?r \<le> b" by simp_all
    from False b have a: "g a \<le> g ?r" "g a = g ?r \<longrightarrow> ?r \<le> a" using ba by auto
    have "highestFrom (b, Finite (g b)) (map (\<lambda>a. (a, Finite (g a))) (a # as)) = ?r"
      using False by simp
    then show ?thesis using ih a by auto
  qed
qed

subsection \<open>Properties of the dataset queries\<close>

text \<open>
  C8. On a dataset with at least one row, all rows of \<open>N\<close> fields, and for an attribute
  id in the valid range \<open>[0, N - 2]\<close>, the counts of
  \<^verbatim>\<open>countEntriesByAttribute\<close> over the values of
  \<^verbatim>\<open>getAllPossibleAttributeValues\<close> add up to the number of rows.
\<close>

theorem partition_counts_sum_to_row_count:
  assumes "data E \<noteq> []" and "\<forall>row \<in> set (data E). length row = N" and "attributeId + 2 \<le> N"
  shows "(\<Sum>v \<leftarrow> getAllPossibleAttributeValues E attributeId.
            countEntriesByAttribute E attributeId v) = int (length (data E))"
  unfolding getAllPossibleAttributeValues_def countEntriesByAttribute_def
  by (rule sum_list_count_remdups)

theorem partition_counts_sum_to_row_count_witness:
  "getAllPossibleAttributeValues
       \<lparr>data = [[''yes'', ''sunny''], [''no'', ''rainy''], [''yes'', ''sunny'']]\<rparr> 0 = [''rainy'', ''sunny'']
   \<and> countEntriesByAttribute
         \<lparr>data = [[''yes'', ''sunny''], [''no'', ''rainy''], [''yes'', ''sunny'']]\<rparr> 0 ''rainy'' = 1
   \<and> countEntriesByAttribute
         \<lparr>data = [[''yes'', ''sunny''], [''no'', ''rainy''], [''yes'', ''sunny'']]\<rparr> 0 ''sunny'' = 2
   \<and> (\<Sum>v \<leftarrow> getAllPossibleAttributeValues
         \<lparr>data = [[''yes'', ''sunny''], [''no'', ''rainy''], [''yes'', ''sunny'']]\<rparr> 0.
         countEntriesByAttribute
           \<lparr>data = [[''yes'', ''sunny''], [''no'', ''rainy''], [''yes'', ''sunny'']]\<rparr> 0 v) = 3"
proof -
  let ?E = "\<lparr>data = [[''yes'', ''sunny''], [''no'', ''rainy''], [''yes'', ''sunny'']]\<rparr>"
  have h1: "data ?E \<noteq> []" by simp
  have h2: "\<forall>row \<in> set (data ?E). length row = 2" by simp
  have h3: "(0::nat) + 2 \<le> 2" by simp
  have vals: "getAllPossibleAttributeValues ?E 0 = [''rainy'', ''sunny'']"
    by (simp add: getAllPossibleAttributeValues_def)
  have counts: "countEntriesByAttribute ?E 0 ''rainy'' = 1"
    "countEntriesByAttribute ?E 0 ''sunny'' = 2"
    by (simp_all add: countEntriesByAttribute_def)
  from partition_counts_sum_to_row_count [OF h1 h2 h3] vals counts show ?thesis by simp
qed

text \<open>
  C3, as claimed: on every dataset with at least one row and at least one attribute
  column \<^verbatim>\<open>getAttributeWithHighestInformationGain\<close> returns the attribute id of maximal
  information gain. It fails: on six rows of six different classes the class
  probabilities, six times the double nearest to \<open>1 / 6\<close>, do not sum to 1, so
  \<^verbatim>\<open>calculateEntropy\<close> raises and no attribute id is returned.
\<close>

theorem getAttributeWithHighestInformationGain_raises_counterexample:
  "data \<lparr>data = [[''a'', ''x''], [''b'', ''x''], [''c'', ''x''], [''d'', ''x''], [''e'', ''x''], [''f'', ''x'']]\<rparr> \<noteq> []
   \<and> list_all (\<lambda>row. length row = 2)
        (data \<lparr>data = [[''a'', ''x''], [''b'', ''x''], [''c'', ''x''], [''d'', ''x''], [''e'', ''x''], [''f'', ''x'']]\<rparr>)
   \<and> getAttributeWithHighestInformationGain
        \<lparr>data = [[''a'', ''x''], [''b'', ''x''], [''c'', ''x''], [''d'', ''x''], [''e'', ''x''], [''f'', ''x'']]\<rparr>
      = Inl (Raised InvalidSumOfProbabilitiesException)"
  by (simp add: getAttributeWithHighestInformationGain_def isEmpty_def numberOfColumns_def
      informationGain_six_classes)

text \<open>
  C3, amended: on a dataset with at least one row, all rows of \<open>N \<ge> 2\<close> fields (at least
  one attribute column): if the information gain of every attribute of the range
  \<open>[0, N - 2]\<close> is computed and is a finite double, then
  \<^verbatim>\<open>getAttributeWithHighestInformationGain\<close> returns an attribute id \<open>a\<close> of the range whose
  gain is maximal among the attributes of the range, and every attribute with the same
  gain has an id that is not lower than \<open>a\<close>; if the computation of some gain raises,
  which only \<^verbatim>\<open>calculateEntropy\<close> can do, the
  \<^verbatim>\<open>InvalidSumOfProbabilitiesException\<close> is passed on and no attribute id is returned.
  The result is a function of the dataset alone, the same at every call.
\<close>

theorem getAttributeWithHighestInformationGain_lowest_maximum:
  assumes "data E \<noteq> []" and "\<forall>row \<in> set (data E). length row = N" and "2 \<le> N"
  shows "((\<forall>b < N - 1. \<exists>g. informationGain E b = Inr (Finite g)) \<longrightarrow>
            (\<exists>a ga. getAttributeWithHighestInformationGain E = Inr a \<and> a < N - 1
               \<and> informationGain E a = Inr (Finite ga)
               \<and> (\<forall>b < N - 1. \<exists>gb. informationGain E b = Inr (Finite gb)
                      \<and> gb \<le> ga \<and> (gb = ga \<longrightarrow> a \<le> b))))
         \<and> ((\<exists>b < N - 1. \<exists>err. informationGain E b = Inl err) \<longrightarrow>
              getAttributeWithHighestInformationGain E
                = Inl (Raised InvalidSumOfProbabilitiesException))"
proof (intro conjI impI)
  from assms(1,2) have cols: "numberOfColumns E = N"
    by (cases "data E") (simp_all add: numberOfColumns_def)
  {
    assume "\<exists>b < N - 1. \<exists>err. informationGain E b = Inl err"
    then obtain b err where "b \<in> set [0 ..< N - 1]" "informationGain E b = Inl err"
      by auto
    then have "informationGains E [0 ..< N - 1] = Inl InvalidSumOfProbabilitiesException"
      by (rule informationGains_error)
    then show "getAttributeWithHighestInformationGain E
                = Inl (Raised InvalidSumOfProbabilitiesException)"
      using assms(1,3) cols
      by (simp add: getAttributeWithHighestInformationGain_def isEmpty_def)
  }
  assume "\<forall>b < N - 1. \<exists>g. informationGain E b = Inr (Finite g)"
  then obtain g where g: "\<forall>b < N - 1. informationGain E b = Inr (Finite (g b))"
    by metis
  then have gs: "\<forall>a \<in> set [0 ..< N - 1]. informationGain E a = Inr (Finite (g a))"
    by simp
  from assms(3) have upt: "[0 ..< N - 1] = 0 # [1 ..< N - 1]"
    by (simp add: upt_conv_Cons)
  let ?r = "highestFrom (0, Finite (g 0)) (map (\<lambda>a. (a, Finite (g a))) [1 ..< N - 1])"
  have "informationGains E [0 ..< N - 1] = Inr (map (\<lambda>a. (a, Finite (g a))) (0 # [1 ..< N - 1]))"
    using informationGains_Finite [OF gs] by (simp only: upt)
  then have res: "getAttributeWithHighestInformationGain E = Inr ?r"
    using assms(1,3) cols
    by (simp add: getAttributeWithHighestInformationGain_def isEmpty_def)
  have "sorted_wrt (<) (0 # [1 ..< N - 1])"
    using upt sorted_wrt_upt [of 0 "N - 1"] by simp
  from highestFrom_lowest_maximum [OF this, of g]
  have r: "?r \<in> set (0 # [1 ..< N - 1])"
    "\<forall>a \<in> set (0 # [1 ..< N - 1]). g a \<le> g ?r \<and> (g a = g ?r \<longrightarrow> ?r \<le> a)"
    by blast+
  have set: "set (0 # [1 ..< N - 1]) = {0 ..< N - 1}"
    using upt [symmetric] by simp
  have r1: "?r \<in> {0 ..< N - 1}"
    using r(1) unfolding set .
  have r2: "\<forall>a \<in> {0 ..< N - 1}. g a \<le> g ?r \<and> (g a = g ?r \<longrightarrow> ?r \<le> a)"
    using r(2) unfolding set .
  from r1 have lt: "?r < N - 1" by simp
  moreover have "\<forall>b < N - 1. \<exists>gb. informationGain E b = Inr (Finite gb)
                  \<and> gb \<le> g ?r \<and> (gb = g ?r \<longrightarrow> ?r \<le> b)"
    using r2 g by simp
  ultimately show "\<exists>a ga. getAttributeWithHighestInformationGain E = Inr a \<and> a < N - 1
               \<and> informationGain E a = Inr (Finite ga)
               \<and> (\<forall>b < N - 1. \<exists>gb. informationGain E b = Inr (Finite gb)
                      \<and> gb \<le> ga \<and> (gb = ga \<longrightarrow> a \<le> b))"
    using res g by blast
qed

theorem getAttributeWithHighestInformationGain_lowest_maximum_witness:
  "informationGain \<lparr>data = [[''yes'', ''x'', ''p''], [''no'', ''y'', ''q'']]\<rparr> 0 = Inr (Finite 1)
   \<and> informationGain \<lparr>data = [[''yes'', ''x'', ''p''], [''no'', ''y'', ''q'']]\<rparr> 1 = Inr (Finite 1)
   \<and> getAttributeWithHighestInformationGain
        \<lparr>data = [[''yes'', ''x'', ''p''], [''no'', ''y'', ''q'']]\<rparr> = Inr 0
   \<and> informationGain
        \<lparr>data = [[''a'', ''x''], [''b'', ''x''], [''c'', ''x''], [''d'', ''x''], [''e'', ''x''], [''f'', ''x'']]\<rparr> 0
      = Inl InvalidSumOfProbabilitiesException
   \<and> getAttributeWithHighestInformationGain
        \<lparr>data = [[''a'', ''x''], [''b'', ''x''], [''c'', ''x''], [''d'', ''x''], [''e'', ''x''], [''f'', ''x'']]\<rparr>
      = Inl (Raised InvalidSumOfProbabilitiesException)"
proof -
  let ?E = "\<lparr>data = [[''yes'', ''x'', ''p''], [''no'', ''y'', ''q'']]\<rparr>"
  let ?F = "\<lparr>data = [[''a'', ''x''], [''b'', ''x''], [''c'', ''x''], [''d'', ''x''], [''e'', ''x''], [''f'', ''x'']]\<rparr>"
  have h1: "data ?E \<noteq> []" by simp
  have h2: "\<forall>row \<in> set (data ?E). length row = 3" by simp
  have h3: "(2::nat) \<le> 3" by simp
  have g0: "informationGain ?E 0 = Inr (Finite 1)" and g1: "informationGain ?E 1 = Inr (Finite 1)"
    using informationGain_two_rows by simp_all
  have all: "\<forall>b < 3 - 1. \<exists>g. informationGain ?E b = Inr (Finite g)"
  proof (intro allI impI)
    fix b :: nat assume "b < 3 - 1"
    then have "b = 0 \<or> b = 1" by auto
    with g0 g1 show "\<exists>g. informationGain ?E b = Inr (Finite g)" by auto
  qed
  from getAttributeWithHighestInformationGain_lowest_maximum
         [OF h1 h2 h3, THEN conjunct1, THEN mp, OF all]
  obtain a ga where
    res: "getAttributeWithHighestInformationGain ?E = Inr a" and a: "a < 3 - 1"
    and ga: "informationGain ?E a = Inr (Finite ga)"
    and best: "\<forall>b < 3 - 1. \<exists>gb. informationGain ?E b = Inr (Finite gb)
                  \<and> gb \<le> ga \<and> (gb = ga \<longrightarrow> a \<le> b)"
    by blast
  from a have "a = 0 \<or> a = 1" by auto
  with ga g0 g1 have "ga = 1" by auto
  moreover have "\<exists>gb. informationGain ?E 0 = Inr (Finite gb)
                  \<and> gb \<le> ga \<and> (gb = ga \<longrightarrow> a \<le> 0)"
    using best [rule_format, of 0] by simp
  ultimately have "a = 0" using g0 by simp
  with res have first: "getAttributeWithHighestInformationGain ?E = Inr 0" by simp
  have k1: "data ?F \<noteq> []" by simp
  have k2: "\<forall>row \<in> set (data ?F). length row = 2" by simp
  have k3: "(2::nat) \<le> 2" by simp
  have err: "informationGain ?F 0 = Inl InvalidSumOfProbabilitiesException"
    by (rule informationGain_six_classes)
  then have ex: "\<exists>b < 2 - 1. \<exists>err. informationGain ?F b = Inl err" by auto
  from getAttributeWithHighestInformationGain_lowest_maximum
         [OF k1 k2 k3, THEN conjunct2, THEN mp, OF ex]
  have second: "getAttributeWithHighestInformationGain ?F
      = Inl (Raised InvalidSumOfProbabilitiesException)" .
  from g0 g1 first err second show ?thesis by simp
qed

end
